theory Spec2Isabelle
  imports Main "HOL-Library.Word"
begin

unbundle bit_operations_syntax

section \<open>Bicycle ABS control core (Milestone3/main.c)\<close>

text \<open>
  The target is an ATmega328P built with avr-gcc: \<open>int\<close> is 16 bits wide, \<open>uint32_t\<close> and
  \<open>int32_t\<close> are 32 bits wide, the compare registers \<open>OCR1A\<close> and \<open>OCR1B\<close> are 16 bits wide
  and \<open>ADCH\<close> is 8 bits wide. Every global of the program and the two compare registers it
  writes form the state. An interrupt handler is a function from state to state: the
  hardware clears the global interrupt flag when a handler is entered and no handler sets it
  again, so a handler runs to completion before the next one starts.
\<close>

subsection \<open>Globals and registers\<close>

record state =
  microsFrontWheel :: "32 word"
  microsRearWheel :: "32 word"
  startFrontWheel :: "32 word"
  startRearWheel :: "32 word"
  frontWheelPeriod :: "32 word"
  rearWheelPeriod :: "32 word"
  checkWheelsFrequenciesReturnValue :: "16 word"
  OCR1A :: "16 word"
  OCR1B :: "16 word"

text \<open>\<open>#define DIFFERENCE_THRESHOLD 50\<close>: an \<open>int\<close> constant, converted without change of
  value to \<open>int32_t\<close> where it is compared.\<close>

definition DIFFERENCE_THRESHOLD :: int where
  "DIFFERENCE_THRESHOLD = 50"

text \<open>The sentinel \<open>-1\<close> stored in a \<open>uint32_t\<close>, and the three values the program stores in
  \<open>checkWheelsFrequenciesReturnValue\<close>, under the names the specification uses.\<close>

abbreviation (input) Unknown :: "32 word" where
  "Unknown \<equiv> - 1"

abbreviation (input) FrontSlower :: "16 word" where
  "FrontSlower \<equiv> 1"

abbreviation (input) RearSlower :: "16 word" where
  "RearSlower \<equiv> - 1"

abbreviation (input) Balanced :: "16 word" where
  "Balanced \<equiv> 0"

text \<open>The initialisers of the globals. The compare registers are not written before the
  first conversion completes, so a state at startup leaves them open.\<close>

definition initial :: "state \<Rightarrow> bool" where
  "initial s \<longleftrightarrow>
     microsFrontWheel s = 0 \<and> microsRearWheel s = 0 \<and>
     startFrontWheel s = 0 \<and> startRearWheel s = 0 \<and>
     frontWheelPeriod s = - 1 \<and> rearWheelPeriod s = - 1 \<and>
     checkWheelsFrequenciesReturnValue s = 0"

definition power_on :: state where
  "power_on =
     \<lparr>microsFrontWheel = 0, microsRearWheel = 0, startFrontWheel = 0, startRearWheel = 0,
      frontWheelPeriod = - 1, rearWheelPeriod = - 1, checkWheelsFrequenciesReturnValue = 0,
      OCR1A = 0, OCR1B = 0\<rparr>"

subsection \<open>The frequency comparator\<close>

text \<open>\<open>int32_t difference = frontWheelPeriod-rearWheelPeriod\<close>: the subtraction is done on
  \<open>uint32_t\<close> and wraps; the conversion to \<open>int32_t\<close> reads the same 32 bits as two's
  complement.\<close>

definition checkWheelsFrequencies :: "state \<Rightarrow> state" where
  "checkWheelsFrequencies s =
     (if frontWheelPeriod s = - 1 \<or> rearWheelPeriod s = - 1 then s
      else
        let difference = sint (frontWheelPeriod s - rearWheelPeriod s);
            s1 = s\<lparr>frontWheelPeriod := - 1, rearWheelPeriod := - 1\<rparr>
        in if difference > DIFFERENCE_THRESHOLD
             then s1\<lparr>checkWheelsFrequenciesReturnValue := 1\<rparr>
           else if difference < - DIFFERENCE_THRESHOLD
             then s1\<lparr>checkWheelsFrequenciesReturnValue := - 1\<rparr>
           else s1\<lparr>checkWheelsFrequenciesReturnValue := 0\<rparr>)"

subsection \<open>The brake controller\<close>

text \<open>\<open>if(value>235) value=235; else if(value<0) value=0;\<close> on a 16-bit \<open>int\<close>.\<close>

definition clampValue :: "16 word \<Rightarrow> 16 word" where
  "clampValue val = (if sint val > 235 then 235 else if sint val < 0 then 0 else val)"

text \<open>\<open>value<<4\<close> is at most 3760 after the clamp and the sum at most 4760, so neither the
  16-bit \<open>int\<close> arithmetic nor the store to the 16-bit register loses a bit.\<close>

definition setServoPosition :: "16 word \<Rightarrow> state \<Rightarrow> state" where
  "setServoPosition val s =
     (let s1 = checkWheelsFrequencies s;
          val1 = clampValue val
      in s1\<lparr>OCR1A := 1000 + (if checkWheelsFrequenciesReturnValue s1 = 1 then 0
                               else push_bit 4 val1),
            OCR1B := 1000 + (if checkWheelsFrequenciesReturnValue s1 = - 1 then 0
                               else push_bit 4 val1)\<rparr>)"

subsection \<open>Interrupt handlers\<close>

text \<open>\<open>ISR(ADC_vect)\<close>: \<open>ADCH\<close> is the 8-bit conversion result, promoted to \<open>int\<close> before
  the subtraction.\<close>

definition ADC_vect :: "8 word \<Rightarrow> state \<Rightarrow> state" where
  "ADC_vect ADCH s = setServoPosition (128 - ucast ADCH) s"

definition TIMER2_COMPA_vect :: "state \<Rightarrow> state" where
  "TIMER2_COMPA_vect s =
     s\<lparr>microsFrontWheel := microsFrontWheel s + 1,
       microsRearWheel := microsRearWheel s + 1\<rparr>"

text \<open>\<open>ISR(INT0_vect)\<close> and \<open>ISR(INT1_vect)\<close>: the argument is the truth value of
  \<open>PIND & 1<<PORTD2\<close> (of \<open>PIND & 1<<PORTD3\<close> for the rear wheel), the level of the sensor
  line when the handler runs.\<close>

definition INT0_vect :: "bool \<Rightarrow> state \<Rightarrow> state" where
  "INT0_vect pinHigh s =
     (if pinHigh then s\<lparr>startFrontWheel := microsFrontWheel s\<rparr>
      else s\<lparr>frontWheelPeriod := microsFrontWheel s - startFrontWheel s,
             microsFrontWheel := 0\<rparr>)"

definition INT1_vect :: "bool \<Rightarrow> state \<Rightarrow> state" where
  "INT1_vect pinHigh s =
     (if pinHigh then s\<lparr>startRearWheel := microsRearWheel s\<rparr>
      else s\<lparr>rearWheelPeriod := microsRearWheel s - startRearWheel s,
             microsRearWheel := 0\<rparr>)"

subsection \<open>Runs of the program\<close>

text \<open>\<open>main\<close> enables interrupts and idles, so a run of the program is the sequence of
  handlers the hardware starts.\<close>

datatype event = Tick | FrontEdge bool | RearEdge bool | LeverSample "8 word"

fun handle :: "event \<Rightarrow> state \<Rightarrow> state" where
  "handle Tick s = TIMER2_COMPA_vect s"
| "handle (FrontEdge pinHigh) s = INT0_vect pinHigh s"
| "handle (RearEdge pinHigh) s = INT1_vect pinHigh s"
| "handle (LeverSample ADCH) s = ADC_vect ADCH s"

fun run :: "state \<Rightarrow> event list \<Rightarrow> state" where
  "run s [] = s"
| "run s (e # es) = run (handle e s) es"

subsection \<open>The two wheel channels\<close>

text \<open>The front and the rear channel are the same code over different globals; a theorem
  about both is stated once, over the wheel.\<close>

datatype wheel = Front | Rear

fun other :: "wheel \<Rightarrow> wheel" where
  "other Front = Rear"
| "other Rear = Front"

fun ticks :: "wheel \<Rightarrow> state \<Rightarrow> 32 word" where
  "ticks Front s = microsFrontWheel s"
| "ticks Rear s = microsRearWheel s"

fun startMark :: "wheel \<Rightarrow> state \<Rightarrow> 32 word" where
  "startMark Front s = startFrontWheel s"
| "startMark Rear s = startRearWheel s"

fun sample :: "wheel \<Rightarrow> state \<Rightarrow> 32 word" where
  "sample Front s = frontWheelPeriod s"
| "sample Rear s = rearWheelPeriod s"

fun edge :: "wheel \<Rightarrow> bool \<Rightarrow> event" where
  "edge Front pinHigh = FrontEdge pinHigh"
| "edge Rear pinHigh = RearEdge pinHigh"

fun is_edge_of :: "wheel \<Rightarrow> event \<Rightarrow> bool" where
  "is_edge_of Front (FrontEdge pinHigh) = True"
| "is_edge_of Rear (RearEdge pinHigh) = True"
| "is_edge_of w e = False"

fun is_falling_of :: "wheel \<Rightarrow> event \<Rightarrow> bool" where
  "is_falling_of Front (FrontEdge pinHigh) = (\<not> pinHigh)"
| "is_falling_of Rear (RearEdge pinHigh) = (\<not> pinHigh)"
| "is_falling_of w e = False"

fun is_falling :: "event \<Rightarrow> bool" where
  "is_falling (FrontEdge pinHigh) = (\<not> pinHigh)"
| "is_falling (RearEdge pinHigh) = (\<not> pinHigh)"
| "is_falling e = False"

subsection \<open>Observations on runs\<close>

definition both_fresh :: "state \<Rightarrow> bool" where
  "both_fresh s \<longleftrightarrow> frontWheelPeriod s \<noteq> - 1 \<and> rearWheelPeriod s \<noteq> - 1"

fun is_lever_sample :: "event \<Rightarrow> bool" where
  "is_lever_sample (LeverSample ADCH) = True"
| "is_lever_sample e = False"

text \<open>A run from startup in which the front sensor line is read low by two handlers in a
  row: a pulse of 3 ticks, then, one tick later, a second falling edge with the start mark of
  the first pulse still in place. The rear wheel then publishes a pulse of 60 ticks.\<close>

definition glitch_run :: "event list" where
  "glitch_run =
     replicate 5 Tick @ [FrontEdge True] @ replicate 3 Tick @
     [FrontEdge False, Tick, FrontEdge False, RearEdge True] @
     replicate 60 Tick @ [RearEdge False]"

text \<open>No comparator evaluation of the run finds both samples fresh.\<close>

fun no_fresh_pair :: "state \<Rightarrow> event list \<Rightarrow> bool" where
  "no_fresh_pair s [] = True"
| "no_fresh_pair s (e # es) =
     ((is_lever_sample e \<longrightarrow> \<not> both_fresh s) \<and> no_fresh_pair (handle e s) es)"

section \<open>Arithmetic of the machine integers\<close>

lemma sint_diff_exact:
  fixes f r :: "32 word"
  assumes "- (2 ^ 31) \<le> uint f - uint r" and "uint f - uint r < 2 ^ 31"
  shows "sint (f - r) = uint f - uint r"
proof -
  have "uint (f - r) = take_bit 32 (uint f - uint r)"
    by (simp add: uint_word_ariths take_bit_eq_mod)
  then have "sint (f - r) = signed_take_bit 31 (take_bit 32 (uint f - uint r))"
    by (simp add: sint_uint)
  also have "\<dots> = signed_take_bit 31 (uint f - uint r)"
    by (simp add: signed_take_bit_take_bit)
  also have "\<dots> = uint f - uint r"
    using assms by (simp add: signed_take_bit_int_eq_self)
  finally show ?thesis .
qed

lemma signed_take_bit_15_small:
  "- 32768 \<le> (k::int) \<Longrightarrow> k < 32768 \<Longrightarrow> signed_take_bit 15 k = k"
  by (rule signed_take_bit_int_eq_self) simp_all

lemma uint_ucast_ADCH: "uint (ucast (r :: 8 word) :: 16 word) = uint r"
  by (simp add: uint_up_ucast is_up)

lemma sint_ucast_ADCH: "sint (ucast (r :: 8 word) :: 16 word) = uint r"
proof -
  have "uint r < 256" using uint_bounded [of r] by simp
  moreover have "0 \<le> uint r" by simp
  ultimately have "signed_take_bit 15 (uint r) = uint r"
    by (intro signed_take_bit_15_small) linarith+
  then show ?thesis
    by (simp add: sint_uint uint_ucast_ADCH)
qed

lemma sint_inverted_lever: "sint (128 - ucast (r :: 8 word) :: 16 word) = 128 - uint r"
proof -
  have "uint r < 256" using uint_bounded [of r] by simp
  moreover have "0 \<le> uint r" by simp
  ultimately have "signed_take_bit 15 (128 - uint r) = 128 - uint r"
    by (intro signed_take_bit_15_small) linarith+
  then show ?thesis
    by (simp add: sint_word_diff sint_ucast_ADCH)
qed

lemma uint_nonneg_sint: "0 \<le> sint (v :: 16 word) \<Longrightarrow> uint v = sint v"
  using sint_lt [of v] by (simp add: uint_sint take_bit_int_eq_self)

lemma sint_clampValue: "sint (clampValue val) = max 0 (min 235 (sint val))"
  by (simp add: clampValue_def)

lemma uint_clampValue: "uint (clampValue val) = sint (clampValue val)"
  by (rule uint_nonneg_sint) (simp add: sint_clampValue)

lemma uint_command:
  "uint (1000 + push_bit 4 (clampValue val)) = 1000 + sint (clampValue val) * 16"
proof -
  let ?b = "sint (clampValue val)"
  have b: "0 \<le> ?b" "?b \<le> 235" by (simp_all add: sint_clampValue)
  have "uint (1000 + push_bit 4 (clampValue val)) = (1000 + 16 * uint (clampValue val)) mod 65536"
    by (simp add: push_bit_eq_mult uint_word_ariths mod_simps mult.commute)
  also have "\<dots> = (1000 + 16 * ?b) mod 65536"
    by (simp only: uint_clampValue)
  also have "\<dots> = 1000 + 16 * ?b"
    using b by (intro mod_pos_pos_trivial) linarith+
  finally show ?thesis by simp
qed

section \<open>Frame lemmas of the handlers\<close>

lemma checkWheelsFrequencies_stale:
  "frontWheelPeriod s = - 1 \<or> rearWheelPeriod s = - 1 \<Longrightarrow> checkWheelsFrequencies s = s"
  by (simp add: checkWheelsFrequencies_def)

lemma checkWheelsFrequencies_fresh:
  assumes "frontWheelPeriod s \<noteq> - 1" and "rearWheelPeriod s \<noteq> - 1"
  shows "frontWheelPeriod (checkWheelsFrequencies s) = - 1"
    and "rearWheelPeriod (checkWheelsFrequencies s) = - 1"
    and "checkWheelsFrequenciesReturnValue (checkWheelsFrequencies s) =
           (if sint (frontWheelPeriod s - rearWheelPeriod s) > 50 then 1
            else if sint (frontWheelPeriod s - rearWheelPeriod s) < - 50 then - 1 else 0)"
  using assms by (simp_all add: checkWheelsFrequencies_def DIFFERENCE_THRESHOLD_def Let_def)

text \<open>Two widths that differ by \<open>2 ^ 31\<close> or more: the 32-bit difference changes sign.\<close>

lemma checkWheelsFrequencies_wraps:
  "checkWheelsFrequenciesReturnValue (checkWheelsFrequencies
     (power_on\<lparr>frontWheelPeriod := 0x80000064, rearWheelPeriod := 0\<rparr>)) = - 1"
  by (simp add: checkWheelsFrequencies_def DIFFERENCE_THRESHOLD_def)

lemma setServoPosition_globals:
  "microsFrontWheel (setServoPosition val s) = microsFrontWheel (checkWheelsFrequencies s)"
  "microsRearWheel (setServoPosition val s) = microsRearWheel (checkWheelsFrequencies s)"
  "startFrontWheel (setServoPosition val s) = startFrontWheel (checkWheelsFrequencies s)"
  "startRearWheel (setServoPosition val s) = startRearWheel (checkWheelsFrequencies s)"
  "frontWheelPeriod (setServoPosition val s) = frontWheelPeriod (checkWheelsFrequencies s)"
  "rearWheelPeriod (setServoPosition val s) = rearWheelPeriod (checkWheelsFrequencies s)"
  "checkWheelsFrequenciesReturnValue (setServoPosition val s) =
     checkWheelsFrequenciesReturnValue (checkWheelsFrequencies s)"
  by (simp_all add: setServoPosition_def Let_def)

lemma setServoPosition_commands:
  "uint (OCR1A (setServoPosition val s)) =
     (if checkWheelsFrequenciesReturnValue (checkWheelsFrequencies s) = 1 then 1000
      else 1000 + sint (clampValue val) * 16)"
  "uint (OCR1B (setServoPosition val s)) =
     (if checkWheelsFrequenciesReturnValue (checkWheelsFrequencies s) = - 1 then 1000
      else 1000 + sint (clampValue val) * 16)"
  by (simp_all add: setServoPosition_def Let_def uint_command)

section \<open>The frequency comparator\<close>

text \<open>
  Within the range of \<open>int32_t\<close> the comparator classifies by the difference of the two
  widths read as numbers.
\<close>

lemma classification_within_int32_range:
  assumes "frontWheelPeriod s \<noteq> Unknown" and "rearWheelPeriod s \<noteq> Unknown"
    and "- (2 ^ 31) \<le> uint (frontWheelPeriod s) - uint (rearWheelPeriod s)"
    and "uint (frontWheelPeriod s) - uint (rearWheelPeriod s) < 2 ^ 31"
  defines "d \<equiv> uint (frontWheelPeriod s) - uint (rearWheelPeriod s)"
  shows "checkWheelsFrequenciesReturnValue (checkWheelsFrequencies s) =
           (if d > 50 then FrontSlower else if d < - 50 then RearSlower else Balanced)"
  unfolding d_def
  using checkWheelsFrequencies_fresh(3) [OF assms(1,2)] sint_diff_exact [OF assms(3,4)]
  by simp

text \<open>
  C1. The claim: when both pulse-width samples are fresh and \<open>d\<close> is the front width minus
  the rear width, the comparator stores \<open>FrontSlower\<close> if \<open>d > 50\<close>, \<open>RearSlower\<close> if
  \<open>d < - 50\<close> and \<open>Balanced\<close> otherwise; the comment above \<open>checkWheelsFrequencies\<close> in
  the source says the same. The run \<open>glitch_run\<close> from startup publishes the front width
  4294967292 and the rear width 60. Both samples are fresh and \<open>d = 4294967232 > 50\<close>, yet the
  \<open>int32_t\<close> difference the code compares is -64: the comparator stores \<open>RearSlower\<close>, and
  the control cycle applies the front brake and releases the rear one.
\<close>

theorem comparator_misclassifies_wide_pulse:
  "frontWheelPeriod (run power_on glitch_run) = 4294967292
   \<and> rearWheelPeriod (run power_on glitch_run) = 60
   \<and> frontWheelPeriod (run power_on glitch_run) \<noteq> Unknown
   \<and> rearWheelPeriod (run power_on glitch_run) \<noteq> Unknown
   \<and> uint (frontWheelPeriod (run power_on glitch_run))
       - uint (rearWheelPeriod (run power_on glitch_run)) = 4294967232
   \<and> sint (frontWheelPeriod (run power_on glitch_run)
       - rearWheelPeriod (run power_on glitch_run)) = - 64
   \<and> checkWheelsFrequenciesReturnValue (checkWheelsFrequencies (run power_on glitch_run))
       = RearSlower
   \<and> checkWheelsFrequenciesReturnValue (checkWheelsFrequencies (run power_on glitch_run))
       \<noteq> FrontSlower
   \<and> uint (OCR1A (ADC_vect 0 (run power_on glitch_run))) = 3048
   \<and> uint (OCR1B (ADC_vect 0 (run power_on glitch_run))) = 1000"
  by code_simp

text \<open>
  C2. When at least one pulse-width sample is \<open>Unknown\<close>, the comparator leaves the stored
  classification as it was, and so does the whole control cycle that evaluates it.
\<close>

theorem hold_last_decision:
  assumes "frontWheelPeriod s = Unknown \<or> rearWheelPeriod s = Unknown"
  shows "checkWheelsFrequenciesReturnValue (checkWheelsFrequencies s) =
           checkWheelsFrequenciesReturnValue s
         \<and> checkWheelsFrequenciesReturnValue (ADC_vect ADCH s) =
           checkWheelsFrequenciesReturnValue s"
  using checkWheelsFrequencies_stale [OF assms]
  by (simp add: ADC_vect_def setServoPosition_globals)

theorem hold_last_decision_witness:
  "(frontWheelPeriod
      (power_on\<lparr>frontWheelPeriod := 120, checkWheelsFrequenciesReturnValue := RearSlower\<rparr>) = Unknown
    \<or> rearWheelPeriod
      (power_on\<lparr>frontWheelPeriod := 120, checkWheelsFrequenciesReturnValue := RearSlower\<rparr>) = Unknown)
   \<and> checkWheelsFrequenciesReturnValue
       (checkWheelsFrequencies
         (power_on\<lparr>frontWheelPeriod := 120, checkWheelsFrequenciesReturnValue := RearSlower\<rparr>))
     = RearSlower
   \<and> checkWheelsFrequenciesReturnValue
       (ADC_vect 7
         (power_on\<lparr>frontWheelPeriod := 120, checkWheelsFrequenciesReturnValue := RearSlower\<rparr>))
     = RearSlower"
  using hold_last_decision
    [of "power_on\<lparr>frontWheelPeriod := 120, checkWheelsFrequenciesReturnValue := RearSlower\<rparr>" 7]
  by (simp add: power_on_def)

section \<open>The brake controller\<close>

text \<open>
  C3. In every control cycle, with the classification taken after the comparator has been
  evaluated in that cycle and the baseline being the clamped intensity: if the classification
  is \<open>FrontSlower\<close> the front command is 1000 and the rear command is 1000 + baseline * 16;
  if it is \<open>RearSlower\<close> the rear command is 1000 and the front command is
  1000 + baseline * 16; if it is \<open>Balanced\<close> both commands are 1000 + baseline * 16. The
  commands are read as unsigned 16-bit register values, so none of the sums wraps.
\<close>

theorem commands_by_classification:
  fixes val :: "16 word" and s :: state
  defines "s' \<equiv> setServoPosition val s"
    and "cls \<equiv> checkWheelsFrequenciesReturnValue (checkWheelsFrequencies s)"
    and "baseline \<equiv> sint (clampValue val)"
  shows "(cls = FrontSlower \<longrightarrow>
            uint (OCR1A s') = 1000 \<and> uint (OCR1B s') = 1000 + baseline * 16)
       \<and> (cls = RearSlower \<longrightarrow>
            uint (OCR1B s') = 1000 \<and> uint (OCR1A s') = 1000 + baseline * 16)
       \<and> (cls = Balanced \<longrightarrow>
            uint (OCR1A s') = 1000 + baseline * 16 \<and> uint (OCR1B s') = 1000 + baseline * 16)
       \<and> checkWheelsFrequenciesReturnValue s' = cls"
  unfolding s'_def cls_def baseline_def
  by (simp add: setServoPosition_commands setServoPosition_globals)

theorem commands_by_classification_witness:
  "checkWheelsFrequenciesReturnValue (checkWheelsFrequencies
      (power_on\<lparr>checkWheelsFrequenciesReturnValue := FrontSlower\<rparr>)) = FrontSlower
   \<and> uint (OCR1A (setServoPosition 100
        (power_on\<lparr>checkWheelsFrequenciesReturnValue := FrontSlower\<rparr>))) = 1000
   \<and> uint (OCR1B (setServoPosition 100
        (power_on\<lparr>checkWheelsFrequenciesReturnValue := FrontSlower\<rparr>))) = 2600
   \<and> checkWheelsFrequenciesReturnValue (checkWheelsFrequencies
      (power_on\<lparr>checkWheelsFrequenciesReturnValue := RearSlower\<rparr>)) = RearSlower
   \<and> uint (OCR1B (setServoPosition 100
        (power_on\<lparr>checkWheelsFrequenciesReturnValue := RearSlower\<rparr>))) = 1000
   \<and> uint (OCR1A (setServoPosition 100
        (power_on\<lparr>checkWheelsFrequenciesReturnValue := RearSlower\<rparr>))) = 2600
   \<and> checkWheelsFrequenciesReturnValue (checkWheelsFrequencies power_on) = Balanced
   \<and> uint (OCR1A (setServoPosition 100 power_on)) = 2600
   \<and> uint (OCR1B (setServoPosition 100 power_on)) = 2600"
proof -
  have stale: "checkWheelsFrequencies (power_on\<lparr>checkWheelsFrequenciesReturnValue := c\<rparr>) =
      power_on\<lparr>checkWheelsFrequenciesReturnValue := c\<rparr>" for c
    by (simp add: checkWheelsFrequencies_def power_on_def)
  have stale0: "checkWheelsFrequencies power_on = power_on"
    by (simp add: checkWheelsFrequencies_def power_on_def)
  have ret0: "checkWheelsFrequenciesReturnValue power_on = 0"
    by (simp add: power_on_def)
  have b: "sint (clampValue 100) = 100"
    by (simp add: clampValue_def)
  show ?thesis
    using commands_by_classification
        [of "power_on\<lparr>checkWheelsFrequenciesReturnValue := FrontSlower\<rparr>" 100]
      commands_by_classification
        [of "power_on\<lparr>checkWheelsFrequenciesReturnValue := RearSlower\<rparr>" 100]
      commands_by_classification [of power_on 100]
    by (simp add: stale stale0 ret0 b)
qed

text \<open>
  C4. For every 8-bit lever reading \<open>r\<close>, the baseline intensity of the control cycle that
  the reading starts is \<open>clamp (128 - r) 0 235\<close>; a reading of 128 or more gives baseline 0.
  The baseline is the value the cycle scales into the command of each wheel that is not
  classified slower.
\<close>

theorem baseline_from_lever:
  fixes r :: "8 word"
  defines "baseline \<equiv> clampValue (128 - ucast r)"
  shows "sint baseline = max 0 (min 235 (128 - uint r))
       \<and> (128 \<le> uint r \<longrightarrow> baseline = 0)
       \<and> (checkWheelsFrequenciesReturnValue (checkWheelsFrequencies s) \<noteq> FrontSlower \<longrightarrow>
            uint (OCR1A (ADC_vect r s)) = 1000 + max 0 (min 235 (128 - uint r)) * 16)
       \<and> (checkWheelsFrequenciesReturnValue (checkWheelsFrequencies s) \<noteq> RearSlower \<longrightarrow>
            uint (OCR1B (ADC_vect r s)) = 1000 + max 0 (min 235 (128 - uint r)) * 16)"
proof -
  have b: "sint baseline = max 0 (min 235 (128 - uint r))"
    unfolding baseline_def by (simp only: sint_clampValue sint_inverted_lever)
  have z: "baseline = 0" if "128 \<le> uint r"
  proof -
    from that b have "sint baseline = 0" by simp
    then have "word_of_int (sint baseline) = (word_of_int 0 :: 16 word)" by simp
    then show ?thesis by simp
  qed
  from b z show ?thesis
    by (simp add: ADC_vect_def setServoPosition_commands baseline_def)
qed

theorem baseline_from_lever_witness:
  "128 \<le> uint (200 :: 8 word) \<and> clampValue (128 - ucast (200 :: 8 word)) = 0
   \<and> sint (clampValue (128 - ucast (0 :: 8 word))) = 128
   \<and> checkWheelsFrequenciesReturnValue (checkWheelsFrequencies power_on) \<noteq> FrontSlower
   \<and> checkWheelsFrequenciesReturnValue (checkWheelsFrequencies power_on) \<noteq> RearSlower
   \<and> uint (OCR1A (ADC_vect 0 power_on)) = 3048
   \<and> uint (OCR1B (ADC_vect 0 power_on)) = 3048"
proof -
  have stale0: "checkWheelsFrequencies power_on = power_on"
    by (simp add: checkWheelsFrequencies_def power_on_def)
  have ret0: "checkWheelsFrequenciesReturnValue power_on = 0"
    by (simp add: power_on_def)
  show ?thesis
    using baseline_from_lever [of 200 power_on] baseline_from_lever [of 0 power_on]
    by (simp add: stale0 ret0)
qed

text \<open>
  C5. For every 16-bit \<open>int\<close> argument of \<open>setServoPosition\<close>, negative or above 255 included,
  the intensity after clamping lies in [0, 235]; each command written to a compare register
  is 1000 for the wheel classified slower and 1000 + intensity * 16 otherwise, and lies in
  [1000, 1000 + 235 * 16].
\<close>

theorem intensity_and_command_ranges:
  fixes val :: "16 word" and s :: state
  defines "s' \<equiv> setServoPosition val s"
    and "cls \<equiv> checkWheelsFrequenciesReturnValue (checkWheelsFrequencies s)"
    and "intensity \<equiv> sint (clampValue val)"
  shows "0 \<le> intensity \<and> intensity \<le> 235
       \<and> uint (OCR1A s') = (if cls = FrontSlower then 1000 else 1000 + intensity * 16)
       \<and> uint (OCR1B s') = (if cls = RearSlower then 1000 else 1000 + intensity * 16)
       \<and> 1000 \<le> uint (OCR1A s') \<and> uint (OCR1A s') \<le> 1000 + 235 * 16
       \<and> 1000 \<le> uint (OCR1B s') \<and> uint (OCR1B s') \<le> 1000 + 235 * 16"
proof -
  have i: "0 \<le> intensity" "intensity \<le> 235"
    unfolding intensity_def by (simp_all add: sint_clampValue)
  have a: "uint (OCR1A s') = (if cls = FrontSlower then 1000 else 1000 + intensity * 16)"
    and b: "uint (OCR1B s') = (if cls = RearSlower then 1000 else 1000 + intensity * 16)"
    unfolding s'_def cls_def intensity_def by (simp_all only: setServoPosition_commands)
  from i a b show ?thesis by auto
qed

section \<open>Runs and the wheel channels\<close>

lemmas handler_defs = TIMER2_COMPA_vect_def INT0_vect_def INT1_vect_def

lemma run_append: "run s (es @ es') = run (run s es) es'"
  by (induction es arbitrary: s) simp_all

lemma run_snoc: "run s (es @ [e]) = handle e (run s es)"
  by (simp add: run_append)

lemma ADC_vect_stale:
  assumes "frontWheelPeriod s = - 1 \<or> rearWheelPeriod s = - 1"
  shows "frontWheelPeriod (ADC_vect a s) = frontWheelPeriod s"
    and "rearWheelPeriod (ADC_vect a s) = rearWheelPeriod s"
    and "checkWheelsFrequenciesReturnValue (ADC_vect a s) = checkWheelsFrequenciesReturnValue s"
  using checkWheelsFrequencies_stale [OF assms]
  by (simp_all add: ADC_vect_def setServoPosition_globals)

lemma ADC_vect_timing:
  "microsFrontWheel (ADC_vect a s) = microsFrontWheel s"
  "microsRearWheel (ADC_vect a s) = microsRearWheel s"
  "startFrontWheel (ADC_vect a s) = startFrontWheel s"
  "startRearWheel (ADC_vect a s) = startRearWheel s"
  by (simp_all add: ADC_vect_def setServoPosition_globals checkWheelsFrequencies_def Let_def)

text \<open>Only an edge of a wheel's own sensor line writes its start mark or resets its counter.\<close>

lemma handle_startMark:
  "\<not> is_edge_of w e \<Longrightarrow> startMark w (handle e s) = startMark w s"
  by (cases e; cases w) (simp_all add: handler_defs ADC_vect_timing)

lemma handle_ticks:
  "\<not> is_edge_of w e \<Longrightarrow>
     ticks w (handle e s) = ticks w s + (if e = Tick then 1 else 0)"
  by (cases e; cases w) (simp_all add: handler_defs ADC_vect_timing)

lemma run_startMark:
  "list_all (\<lambda>e. \<not> is_edge_of w e) es \<Longrightarrow> startMark w (run s es) = startMark w s"
  by (induction es arbitrary: s) (simp_all add: handle_startMark)

lemma run_ticks:
  "list_all (\<lambda>e. \<not> is_edge_of w e) es \<Longrightarrow>
     ticks w (run s es) = ticks w s + of_nat (count_list es Tick)"
  by (induction es arbitrary: s) (simp_all add: handle_ticks)

lemma rising_edge:
  "startMark w (handle (edge w True) s) = ticks w s"
  "ticks w (handle (edge w True) s) = ticks w s"
  by (cases w; simp add: handler_defs)+

lemma falling_edge:
  "sample w (handle (edge w False) s) = ticks w s - startMark w s"
  "ticks w (handle (edge w False) s) = 0"
  "sample (other w) (handle (edge w False) s) = sample (other w) s"
  "checkWheelsFrequenciesReturnValue (handle (edge w False) s) =
     checkWheelsFrequenciesReturnValue s"
  by (cases w; simp add: handler_defs)+

section \<open>Edge capture\<close>

text \<open>
  C6. For each wheel channel: when a rising edge is handled while the channel's tick counter
  reads 0 and a falling edge is handled when it reads \<open>N\<close>, with no edge of that channel
  (hence no reset of its counter) in between, the published pulse-width sample is \<open>N\<close> and
  the counter is 0 after the falling-edge handler. \<open>N\<close> is the number of timer ticks in
  between, modulo \<open>2 ^ 32\<close>.
\<close>

theorem pulse_width_round_trip:
  assumes "ticks w s = 0" and "list_all (\<lambda>e. \<not> is_edge_of w e) es"
  defines "N \<equiv> ticks w (run s (edge w True # es))"
  shows "sample w (run s (edge w True # es @ [edge w False])) = N
       \<and> ticks w (run s (edge w True # es @ [edge w False])) = 0
       \<and> N = of_nat (count_list es Tick)"
proof -
  let ?s1 = "handle (edge w True) s"
  have mark: "startMark w (run ?s1 es) = 0"
    using assms(1,2) by (simp add: run_startMark rising_edge)
  have count: "ticks w (run ?s1 es) = of_nat (count_list es Tick)"
    using assms(1,2) by (simp add: run_ticks rising_edge)
  have run: "run s (edge w True # es @ [edge w False]) = handle (edge w False) (run ?s1 es)"
    by (simp add: run_append)
  show ?thesis
    unfolding N_def run using mark count by (simp add: falling_edge)
qed

theorem pulse_width_round_trip_witness:
  "ticks Front power_on = 0
   \<and> list_all (\<lambda>e. \<not> is_edge_of Front e) [Tick, Tick, LeverSample 0, Tick, RearEdge True]
   \<and> sample Front (run power_on
        (edge Front True # [Tick, Tick, LeverSample 0, Tick, RearEdge True] @ [edge Front False])) = 3
   \<and> ticks Front (run power_on
        (edge Front True # [Tick, Tick, LeverSample 0, Tick, RearEdge True] @ [edge Front False])) = 0"
proof -
  have h1: "ticks Front power_on = 0"
    by (simp add: power_on_def)
  have h2: "list_all (\<lambda>e. \<not> is_edge_of Front e) [Tick, Tick, LeverSample 0, Tick, RearEdge True]"
    by simp
  from pulse_width_round_trip [OF h1 h2] h1 h2 show ?thesis
    by simp
qed

section \<open>Consumption of samples\<close>

lemma handle_sample_unknown:
  assumes "sample w s = - 1" and "\<not> is_falling_of w e"
  shows "sample w (handle e s) = - 1"
    and "checkWheelsFrequenciesReturnValue (handle e s) = checkWheelsFrequenciesReturnValue s"
  using assms by (cases e; cases w; simp add: handler_defs ADC_vect_stale)+

lemma run_sample_unknown:
  assumes "sample w s = - 1" and "list_all (\<lambda>e. \<not> is_falling_of w e) es"
  shows "sample w (run s es) = - 1
       \<and> checkWheelsFrequenciesReturnValue (run s es) = checkWheelsFrequenciesReturnValue s"
  using assms
proof (induction es arbitrary: s)
  case Nil
  then show ?case by simp
next
  case (Cons e es)
  from Cons.prems have e: "\<not> is_falling_of w e" and es: "list_all (\<lambda>e. \<not> is_falling_of w e) es"
    by simp_all
  note step = handle_sample_unknown [OF Cons.prems(1) e]
  from Cons.IH [OF step(1) es] step(2) show ?case by simp
qed

text \<open>
  C7. An evaluation of the comparator that finds both samples fresh resets both to \<open>Unknown\<close>
  in that evaluation. A second evaluation right after it changes nothing, and in every run
  that follows the control cycle the classification stays as that evaluation left it for as
  long as one of the wheels publishes no new sample: no measurement enters two updates.
\<close>

theorem sample_consumed_once:
  assumes "frontWheelPeriod s \<noteq> Unknown" and "rearWheelPeriod s \<noteq> Unknown"
  shows "frontWheelPeriod (checkWheelsFrequencies s) = Unknown
       \<and> rearWheelPeriod (checkWheelsFrequencies s) = Unknown
       \<and> checkWheelsFrequencies (checkWheelsFrequencies s) = checkWheelsFrequencies s
       \<and> (\<forall>w es. list_all (\<lambda>e. \<not> is_falling_of w e) es \<longrightarrow>
            checkWheelsFrequenciesReturnValue (run (ADC_vect ADCH s) es) =
              checkWheelsFrequenciesReturnValue (checkWheelsFrequencies s))"
proof -
  note fresh = checkWheelsFrequencies_fresh(1,2) [OF assms]
  have again: "checkWheelsFrequencies (checkWheelsFrequencies s) = checkWheelsFrequencies s"
    using fresh by (simp add: checkWheelsFrequencies_stale)
  have unknown: "sample w (ADC_vect ADCH s) = - 1" for w
    using fresh by (cases w) (simp_all add: ADC_vect_def setServoPosition_globals)
  have ret: "checkWheelsFrequenciesReturnValue (ADC_vect ADCH s) =
      checkWheelsFrequenciesReturnValue (checkWheelsFrequencies s)"
    by (simp add: ADC_vect_def setServoPosition_globals)
  have later: "checkWheelsFrequenciesReturnValue (run (ADC_vect ADCH s) es) =
      checkWheelsFrequenciesReturnValue (checkWheelsFrequencies s)"
    if "list_all (\<lambda>e. \<not> is_falling_of w e) es" for w es
    using run_sample_unknown [OF unknown that] ret by simp
  from fresh again later show ?thesis by blast
qed

theorem sample_consumed_once_witness:
  "frontWheelPeriod (power_on\<lparr>frontWheelPeriod := 120, rearWheelPeriod := 60\<rparr>) \<noteq> Unknown
   \<and> rearWheelPeriod (power_on\<lparr>frontWheelPeriod := 120, rearWheelPeriod := 60\<rparr>) \<noteq> Unknown
   \<and> list_all (\<lambda>e. \<not> is_falling_of Rear e)
        [FrontEdge True, Tick, FrontEdge False, RearEdge True, LeverSample 0]
   \<and> frontWheelPeriod (checkWheelsFrequencies
        (power_on\<lparr>frontWheelPeriod := 120, rearWheelPeriod := 60\<rparr>)) = Unknown
   \<and> rearWheelPeriod (checkWheelsFrequencies
        (power_on\<lparr>frontWheelPeriod := 120, rearWheelPeriod := 60\<rparr>)) = Unknown
   \<and> checkWheelsFrequenciesReturnValue
        (run (ADC_vect 0 (power_on\<lparr>frontWheelPeriod := 120, rearWheelPeriod := 60\<rparr>))
           [FrontEdge True, Tick, FrontEdge False, RearEdge True, LeverSample 0]) = FrontSlower"
proof -
  let ?s = "power_on\<lparr>frontWheelPeriod := 120, rearWheelPeriod := 60\<rparr>"
  have h1: "frontWheelPeriod ?s \<noteq> Unknown" and h2: "rearWheelPeriod ?s \<noteq> Unknown"
    by simp_all
  have h3: "list_all (\<lambda>e. \<not> is_falling_of Rear e)
      [FrontEdge True, Tick, FrontEdge False, RearEdge True, LeverSample 0]"
    by simp
  have c: "checkWheelsFrequenciesReturnValue (checkWheelsFrequencies ?s) = FrontSlower"
    by (simp add: checkWheelsFrequencies_def DIFFERENCE_THRESHOLD_def)
  note consumed = sample_consumed_once [OF h1 h2, of 0]
  from consumed have f: "frontWheelPeriod (checkWheelsFrequencies ?s) = Unknown"
    and r: "rearWheelPeriod (checkWheelsFrequencies ?s) = Unknown"
    by simp_all
  from consumed h3 have "checkWheelsFrequenciesReturnValue (run (ADC_vect 0 ?s)
      [FrontEdge True, Tick, FrontEdge False, RearEdge True, LeverSample 0]) =
      checkWheelsFrequenciesReturnValue (checkWheelsFrequencies ?s)"
    by blast
  with c have k: "checkWheelsFrequenciesReturnValue (run (ADC_vect 0 ?s)
      [FrontEdge True, Tick, FrontEdge False, RearEdge True, LeverSample 0]) = FrontSlower"
    by (simp only:)
  from h1 h2 h3 f r k show ?thesis
    by (simp only: simp_thms)
qed

section \<open>The classification from startup\<close>

lemma handle_no_fresh_pair:
  assumes "is_lever_sample e \<longrightarrow> \<not> both_fresh s"
  shows "checkWheelsFrequenciesReturnValue (handle e s) = checkWheelsFrequenciesReturnValue s"
  using assms by (cases e) (auto simp add: handler_defs both_fresh_def ADC_vect_stale)

lemma no_fresh_pair_append:
  "no_fresh_pair s (es @ es') \<longleftrightarrow> no_fresh_pair s es \<and> no_fresh_pair (run s es) es'"
  by (induction es arbitrary: s) auto

lemma run_no_fresh_pair:
  "no_fresh_pair s es \<Longrightarrow>
     checkWheelsFrequenciesReturnValue (run s es) = checkWheelsFrequenciesReturnValue s"
  by (induction es arbitrary: s) (simp_all add: handle_no_fresh_pair)

lemma no_fresh_pair_take:
  assumes "no_fresh_pair s es"
  shows "no_fresh_pair s (take n es)" and "no_fresh_pair (run s (take n es)) (drop n es)"
  using assms no_fresh_pair_append [of s "take n es" "drop n es"] by simp_all

text \<open>
  C8. In a run from startup in which no comparator evaluation finds both samples fresh, the
  classification is \<open>Balanced\<close> after every prefix of the run, and every control cycle of
  the run writes the baseline-scaled command 1000 + baseline * 16 to both wheels: neither
  command is forced to the minimum.
\<close>

theorem balanced_until_first_fresh_pair:
  assumes "initial s" and "no_fresh_pair s es"
  shows "(\<forall>n. checkWheelsFrequenciesReturnValue (run s (take n es)) = Balanced)
       \<and> (\<forall>n ADCH. n < length es \<and> es ! n = LeverSample ADCH \<longrightarrow>
            uint (OCR1A (run s (take (Suc n) es))) = 1000 + sint (clampValue (128 - ucast ADCH)) * 16 \<and>
            uint (OCR1B (run s (take (Suc n) es))) = 1000 + sint (clampValue (128 - ucast ADCH)) * 16)"
proof -
  have ret: "checkWheelsFrequenciesReturnValue (run s (take n es)) = Balanced" for n
    using run_no_fresh_pair [OF no_fresh_pair_take(1) [OF assms(2)], of n] assms(1)
    by (simp add: initial_def)
  have cycle: "uint (OCR1A (run s (take (Suc n) es))) = 1000 + sint (clampValue (128 - ucast ADCH)) * 16 \<and>
            uint (OCR1B (run s (take (Suc n) es))) = 1000 + sint (clampValue (128 - ucast ADCH)) * 16"
    if n: "n < length es \<and> es ! n = LeverSample ADCH" for n ADCH
  proof -
    let ?u = "run s (take n es)"
    from n have "drop n es = LeverSample ADCH # drop (Suc n) es"
      by (simp add: Cons_nth_drop_Suc [symmetric])
    with no_fresh_pair_take(2) [OF assms(2), of n] have "\<not> both_fresh ?u"
      by simp
    then have stale: "checkWheelsFrequencies ?u = ?u"
      by (auto simp add: both_fresh_def checkWheelsFrequencies_stale)
    from n have "run s (take (Suc n) es) = ADC_vect ADCH ?u"
      by (simp add: take_Suc_conv_app_nth run_snoc)
    then show ?thesis
      by (simp add: ADC_vect_def setServoPosition_commands stale ret)
  qed
  from ret cycle show ?thesis by blast
qed

theorem balanced_until_first_fresh_pair_witness:
  "initial power_on
   \<and> no_fresh_pair power_on [Tick, FrontEdge True, Tick, FrontEdge False, LeverSample 0]
   \<and> (4::nat) < length [Tick, FrontEdge True, Tick, FrontEdge False, LeverSample 0]
   \<and> [Tick, FrontEdge True, Tick, FrontEdge False, LeverSample 0] ! 4 = LeverSample 0
   \<and> checkWheelsFrequenciesReturnValue
        (run power_on [Tick, FrontEdge True, Tick, FrontEdge False, LeverSample 0]) = Balanced
   \<and> uint (OCR1A (run power_on [Tick, FrontEdge True, Tick, FrontEdge False, LeverSample 0])) = 3048
   \<and> uint (OCR1B (run power_on [Tick, FrontEdge True, Tick, FrontEdge False, LeverSample 0])) = 3048"
proof -
  let ?es = "[Tick, FrontEdge True, Tick, FrontEdge False, LeverSample 0]"
  have h1: "initial power_on"
    by (simp add: initial_def power_on_def)
  have h2: "no_fresh_pair power_on ?es"
    by (simp add: both_fresh_def handler_defs power_on_def)
  have h3: "(4::nat) < length ?es" and h4: "?es ! 4 = LeverSample 0"
    by simp_all
  have b: "sint (clampValue (128 - ucast (0 :: 8 word))) = 128"
    by (simp add: clampValue_def)
  have t5: "take 5 ?es = ?es" and t4: "take (Suc 4) ?es = ?es"
    by simp_all
  note span = balanced_until_first_fresh_pair [OF h1 h2]
  from span have "checkWheelsFrequenciesReturnValue (run power_on (take 5 ?es)) = Balanced"
    by blast
  then have k: "checkWheelsFrequenciesReturnValue (run power_on ?es) = Balanced"
    by (simp only: t5)
  from span h3 h4 have "uint (OCR1A (run power_on (take (Suc 4) ?es))) =
        1000 + sint (clampValue (128 - ucast (0 :: 8 word))) * 16
      \<and> uint (OCR1B (run power_on (take (Suc 4) ?es))) =
        1000 + sint (clampValue (128 - ucast (0 :: 8 word))) * 16"
    by blast
  then have c: "uint (OCR1A (run power_on ?es)) = 3048" "uint (OCR1B (run power_on ?es)) = 3048"
    by (simp_all only: t4 b)
  from h1 h2 h3 h4 k c show ?thesis
    by (simp only: simp_thms)
qed

section \<open>A sample waiting for the other wheel\<close>

lemmas program_defs =
  handler_defs ADC_vect_def setServoPosition_def checkWheelsFrequencies_def clampValue_def
  DIFFERENCE_THRESHOLD_def power_on_def

lemma handle_pending:
  assumes "frontWheelPeriod s = - 1 \<or> rearWheelPeriod s = - 1" and "\<not> is_falling e"
  shows "frontWheelPeriod (handle e s) = frontWheelPeriod s"
    and "rearWheelPeriod (handle e s) = rearWheelPeriod s"
    and "checkWheelsFrequenciesReturnValue (handle e s) = checkWheelsFrequenciesReturnValue s"
  using assms by (cases e; simp add: handler_defs ADC_vect_stale)+

lemma run_pending:
  assumes "frontWheelPeriod s = - 1 \<or> rearWheelPeriod s = - 1"
    and "list_all (\<lambda>e. \<not> is_falling e) es"
  shows "frontWheelPeriod (run s es) = frontWheelPeriod s
       \<and> rearWheelPeriod (run s es) = rearWheelPeriod s
       \<and> checkWheelsFrequenciesReturnValue (run s es) = checkWheelsFrequenciesReturnValue s"
  using assms
proof (induction es arbitrary: s)
  case Nil
  then show ?case by simp
next
  case (Cons e es)
  from Cons.prems have e: "\<not> is_falling e" and es: "list_all (\<lambda>e. \<not> is_falling e) es"
    by simp_all
  note step = handle_pending [OF Cons.prems(1) e]
  from Cons.prems(1) step have "frontWheelPeriod (handle e s) = - 1 \<or> rearWheelPeriod (handle e s) = - 1"
    by simp
  from Cons.IH [OF this es] step show ?case by simp
qed

text \<open>
  C9. An evaluation of the comparator that finds at least one sample \<open>Unknown\<close> leaves both
  samples as they are. So a fresh sample of one wheel, with the other wheel's sample
  \<open>Unknown\<close>, is still there after any run of control cycles, timer ticks and rising edges;
  when the other wheel then publishes a sample, the next evaluation compares the two samples,
  whichever cycles they were measured in, and resets both.
\<close>

theorem pending_sample_kept:
  fixes w :: wheel and s :: state and es :: "event list"
  defines "t \<equiv> run s (es @ [edge (other w) False])"
  shows "(frontWheelPeriod s = Unknown \<or> rearWheelPeriod s = Unknown \<longrightarrow>
            frontWheelPeriod (checkWheelsFrequencies s) = frontWheelPeriod s \<and>
            rearWheelPeriod (checkWheelsFrequencies s) = rearWheelPeriod s)
       \<and> (sample w s \<noteq> Unknown \<and> sample (other w) s = Unknown \<and>
          list_all (\<lambda>e. \<not> is_falling e) es \<and> sample (other w) t \<noteq> Unknown \<longrightarrow>
            sample w (run s es) = sample w s \<and> sample w t = sample w s \<and>
            sample (other w) t = ticks (other w) (run s es) - startMark (other w) (run s es) \<and>
            checkWheelsFrequenciesReturnValue t = checkWheelsFrequenciesReturnValue s \<and>
            checkWheelsFrequenciesReturnValue (checkWheelsFrequencies t) =
              (if sint (frontWheelPeriod t - rearWheelPeriod t) > 50 then FrontSlower
               else if sint (frontWheelPeriod t - rearWheelPeriod t) < - 50 then RearSlower
               else Balanced) \<and>
            sample w (checkWheelsFrequencies t) = Unknown \<and>
            sample (other w) (checkWheelsFrequencies t) = Unknown)"
proof (intro conjI impI)
  assume "frontWheelPeriod s = Unknown \<or> rearWheelPeriod s = Unknown"
  then have "checkWheelsFrequencies s = s"
    by (rule checkWheelsFrequencies_stale)
  then show "frontWheelPeriod (checkWheelsFrequencies s) = frontWheelPeriod s"
    and "rearWheelPeriod (checkWheelsFrequencies s) = rearWheelPeriod s"
    by simp_all
next
  assume a: "sample w s \<noteq> Unknown \<and> sample (other w) s = Unknown \<and>
          list_all (\<lambda>e. \<not> is_falling e) es \<and> sample (other w) t \<noteq> Unknown"
  let ?u = "run s es"
  from a have one: "frontWheelPeriod s = - 1 \<or> rearWheelPeriod s = - 1"
    by (cases w) simp_all
  from a have es: "list_all (\<lambda>e. \<not> is_falling e) es"
    by simp
  note kept = run_pending [OF one es]
  have t: "t = handle (edge (other w) False) ?u"
    by (simp add: t_def run_snoc)
  from kept show keep: "sample w ?u = sample w s"
    by (cases w) simp_all
  from falling_edge(3) [of "other w" ?u] keep show tw: "sample w t = sample w s"
    by (cases w) (simp_all add: t)
  show "sample (other w) t = ticks (other w) ?u - startMark (other w) ?u"
    by (simp only: t falling_edge(1))
  from kept show "checkWheelsFrequenciesReturnValue t = checkWheelsFrequenciesReturnValue s"
    by (simp add: t falling_edge(4))
  from a tw have fresh: "frontWheelPeriod t \<noteq> - 1" "rearWheelPeriod t \<noteq> - 1"
    by (cases w; simp)+
  from checkWheelsFrequencies_fresh(3) [OF fresh]
  show "checkWheelsFrequenciesReturnValue (checkWheelsFrequencies t) =
              (if sint (frontWheelPeriod t - rearWheelPeriod t) > 50 then FrontSlower
               else if sint (frontWheelPeriod t - rearWheelPeriod t) < - 50 then RearSlower
               else Balanced)" .
  from checkWheelsFrequencies_fresh(1,2) [OF fresh]
  show "sample w (checkWheelsFrequencies t) = Unknown"
    and "sample (other w) (checkWheelsFrequencies t) = Unknown"
    by (cases w; simp)+
qed

theorem pending_sample_kept_witness:
  "(frontWheelPeriod (power_on\<lparr>frontWheelPeriod := 120\<rparr>) = Unknown
      \<or> rearWheelPeriod (power_on\<lparr>frontWheelPeriod := 120\<rparr>) = Unknown)
   \<and> sample Front (power_on\<lparr>frontWheelPeriod := 120\<rparr>) \<noteq> Unknown
   \<and> sample (other Front) (power_on\<lparr>frontWheelPeriod := 120\<rparr>) = Unknown
   \<and> list_all (\<lambda>e. \<not> is_falling e) [LeverSample 0, RearEdge True, Tick, Tick, Tick, LeverSample 9]
   \<and> sample (other Front) (run (power_on\<lparr>frontWheelPeriod := 120\<rparr>)
        ([LeverSample 0, RearEdge True, Tick, Tick, Tick, LeverSample 9] @ [edge (other Front) False]))
      = 3
   \<and> frontWheelPeriod (checkWheelsFrequencies (power_on\<lparr>frontWheelPeriod := 120\<rparr>)) = 120
   \<and> sample Front (run (power_on\<lparr>frontWheelPeriod := 120\<rparr>)
        ([LeverSample 0, RearEdge True, Tick, Tick, Tick, LeverSample 9] @ [edge (other Front) False]))
      = 120
   \<and> checkWheelsFrequenciesReturnValue (checkWheelsFrequencies
        (run (power_on\<lparr>frontWheelPeriod := 120\<rparr>)
          ([LeverSample 0, RearEdge True, Tick, Tick, Tick, LeverSample 9] @ [edge (other Front) False])))
      = FrontSlower"
proof -
  let ?s = "power_on\<lparr>frontWheelPeriod := 120\<rparr>"
  let ?es = "[LeverSample 0, RearEdge True, Tick, Tick, Tick, LeverSample 9]"
  let ?t = "run ?s (?es @ [edge (other Front) False])"
  have h0: "frontWheelPeriod ?s = Unknown \<or> rearWheelPeriod ?s = Unknown"
    and h1: "sample Front ?s \<noteq> Unknown" and h2: "sample (other Front) ?s = Unknown"
    and f: "frontWheelPeriod ?s = 120" "sample Front ?s = 120"
    by (simp_all add: power_on_def)
  have h3: "list_all (\<lambda>e. \<not> is_falling e) ?es"
    by simp
  have r: "sample (other Front) ?t = 3"
    by (simp add: program_defs)
  then have h4: "sample (other Front) ?t \<noteq> Unknown"
    by simp
  note kept = pending_sample_kept [of ?s Front ?es]
  from kept h0 f have c1: "frontWheelPeriod (checkWheelsFrequencies ?s) = 120"
    by (simp only:)
  from kept h1 h2 h3 h4 have k: "sample Front ?t = sample Front ?s"
    and c: "checkWheelsFrequenciesReturnValue (checkWheelsFrequencies ?t) =
              (if sint (frontWheelPeriod ?t - rearWheelPeriod ?t) > 50 then FrontSlower
               else if sint (frontWheelPeriod ?t - rearWheelPeriod ?t) < - 50 then RearSlower
               else Balanced)"
    by blast+
  from k f have c2: "sample Front ?t = 120"
    by (simp only:)
  from c2 r have "frontWheelPeriod ?t = 120" "rearWheelPeriod ?t = 3"
    by (simp_all del: run.simps append.simps)
  with c have c3: "checkWheelsFrequenciesReturnValue (checkWheelsFrequencies ?t) = FrontSlower"
    by (simp del: run.simps append.simps)
  from h0 h1 h2 h3 r c1 c2 c3 show ?thesis
    by (simp only: simp_thms)
qed

section \<open>The sentinel\<close>

lemma uint_Unknown: "uint (- 1 :: 32 word) = 2 ^ 32 - 1"
  by (simp add: unsigned_minus_1_eq_mask mask_eq_exp_minus_1)

lemma all_ones_is_Unknown: "uint (x :: 32 word) = 2 ^ 32 - 1 \<Longrightarrow> x = - 1"
proof -
  assume "uint x = 2 ^ 32 - 1"
  then have "uint x = uint (- 1 :: 32 word)" by (simp only: uint_Unknown)
  then show "x = - 1" by (simp only: word_uint_eq_iff)
qed

text \<open>
  C10. \<open>Unknown\<close> is the 32-bit value with all bits set, \<open>2 ^ 32 - 1\<close>. A falling edge
  whose pulse width is \<open>2 ^ 32 - 1\<close> publishes exactly that value: the comparator finds the
  sample absent, changes neither the classification nor the sample, and no later run changes
  the classification before that wheel publishes again.
\<close>

theorem all_ones_width_is_unknown:
  fixes w :: wheel and s :: state
  defines "t \<equiv> handle (edge w False) s"
  shows "uint Unknown = 2 ^ 32 - 1
       \<and> (\<forall>x :: 32 word. uint x = 2 ^ 32 - 1 \<longrightarrow> x = Unknown)
       \<and> (uint (ticks w s - startMark w s) = 2 ^ 32 - 1 \<longrightarrow>
            sample w t = Unknown \<and> checkWheelsFrequencies t = t \<and>
            checkWheelsFrequenciesReturnValue t = checkWheelsFrequenciesReturnValue s \<and>
            (\<forall>es. list_all (\<lambda>e. \<not> is_falling_of w e) es \<longrightarrow>
               sample w (run t es) = Unknown \<and>
               checkWheelsFrequenciesReturnValue (run t es) = checkWheelsFrequenciesReturnValue s))"
proof -
  note sentinel = uint_Unknown
  have absent: "sample w t = - 1 \<and> checkWheelsFrequencies t = t \<and>
      checkWheelsFrequenciesReturnValue t = checkWheelsFrequenciesReturnValue s \<and>
      (\<forall>es. list_all (\<lambda>e. \<not> is_falling_of w e) es \<longrightarrow>
         sample w (run t es) = - 1 \<and>
         checkWheelsFrequenciesReturnValue (run t es) = checkWheelsFrequenciesReturnValue s)"
    if width: "uint (ticks w s - startMark w s) = 2 ^ 32 - 1"
  proof -
    from all_ones_is_Unknown [OF width] have u: "sample w t = - 1"
      by (simp add: t_def falling_edge(1))
    then have "frontWheelPeriod t = - 1 \<or> rearWheelPeriod t = - 1"
      by (cases w) simp_all
    then have stale: "checkWheelsFrequencies t = t"
      by (rule checkWheelsFrequencies_stale)
    have ret: "checkWheelsFrequenciesReturnValue t = checkWheelsFrequenciesReturnValue s"
      by (simp add: t_def falling_edge(4))
    from run_sample_unknown [OF u] ret u stale show ?thesis
      by simp
  qed
  from sentinel absent all_ones_is_Unknown show ?thesis
    by blast
qed

theorem all_ones_width_is_unknown_witness:
  "uint (ticks Front
       (power_on\<lparr>microsFrontWheel := 5, startFrontWheel := 6, rearWheelPeriod := 60,
          checkWheelsFrequenciesReturnValue := RearSlower\<rparr>)
     - startMark Front
       (power_on\<lparr>microsFrontWheel := 5, startFrontWheel := 6, rearWheelPeriod := 60,
          checkWheelsFrequenciesReturnValue := RearSlower\<rparr>)) = 2 ^ 32 - 1
   \<and> list_all (\<lambda>e. \<not> is_falling_of Front e) [LeverSample 0, Tick, RearEdge True, RearEdge False, LeverSample 3]
   \<and> sample Front (handle (edge Front False)
       (power_on\<lparr>microsFrontWheel := 5, startFrontWheel := 6, rearWheelPeriod := 60,
          checkWheelsFrequenciesReturnValue := RearSlower\<rparr>)) = Unknown
   \<and> checkWheelsFrequenciesReturnValue (run (handle (edge Front False)
       (power_on\<lparr>microsFrontWheel := 5, startFrontWheel := 6, rearWheelPeriod := 60,
          checkWheelsFrequenciesReturnValue := RearSlower\<rparr>))
       [LeverSample 0, Tick, RearEdge True, RearEdge False, LeverSample 3]) = RearSlower"
proof -
  let ?s = "power_on\<lparr>microsFrontWheel := 5, startFrontWheel := 6, rearWheelPeriod := 60,
          checkWheelsFrequenciesReturnValue := RearSlower\<rparr>"
  let ?es = "[LeverSample 0, Tick, RearEdge True, RearEdge False, LeverSample 3]"
  have "ticks Front ?s - startMark Front ?s = - 1"
    by simp
  then have h1: "uint (ticks Front ?s - startMark Front ?s) = 2 ^ 32 - 1"
    by (simp only: uint_Unknown)
  have h2: "list_all (\<lambda>e. \<not> is_falling_of Front e) ?es"
    by simp
  have ret: "checkWheelsFrequenciesReturnValue ?s = RearSlower"
    by simp
  note absent = all_ones_width_is_unknown [of Front ?s]
  from absent h1 have c1: "sample Front (handle (edge Front False) ?s) = Unknown"
    by blast
  from absent h1 h2 have "checkWheelsFrequenciesReturnValue (run (handle (edge Front False) ?s) ?es) =
      checkWheelsFrequenciesReturnValue ?s"
    by blast
  with ret have c2: "checkWheelsFrequenciesReturnValue (run (handle (edge Front False) ?s) ?es) = RearSlower"
    by (simp only:)
  from h1 h2 c1 c2 show ?thesis
    by (simp only: simp_thms)
qed

end
